theory Spec2Isabelle
  imports Complex_Main
begin

section \<open>Data model of Portfoliomanager1.py\<close>

text \<open>
  Numbers are the program's floats read as real numbers: rounding is not modelled.
  What a float division by zero yields is modelled (see \<open>npfloat\<close> below), since numpy
  returns an infinity or NaN there and Python's own division raises.

  A transaction is the 4-tuple \<open>(stock, date, quantity, amount_invested)\<close>; the code
  reads \<open>transaction[0]\<close> and \<open>transaction[3]\<close>. Dates are day numbers.
\<close>

type_synonym date = nat

type_synonym transaction = "string \<times> date \<times> real \<times> real"

definition tx_stock :: "transaction \<Rightarrow> string" where
  "tx_stock t = fst t"

definition tx_amount :: "transaction \<Rightarrow> real" where
  "tx_amount t = snd (snd (snd t))"

datatype error = KeyError | ZeroDivisionError | ValueError

subsection \<open>Python dictionaries, in insertion order\<close>

text \<open>
  \<open>d[k] = v\<close>: an existing key keeps its place and takes the new value, a new key goes
  to the end.
\<close>

fun dict_set :: "('k \<times> 'v) list \<Rightarrow> 'k \<Rightarrow> 'v \<Rightarrow> ('k \<times> 'v) list" where
  "dict_set [] k v = [(k, v)]"
| "dict_set ((k', v') # d) k v =
     (if k' = k then (k, v) # d else (k', v') # dict_set d k v)"

text \<open>A dict comprehension \<open>{k: v for k, v in pairs}\<close> stores the pairs one by one.\<close>

definition dict_of_pairs :: "('k \<times> 'v) list \<Rightarrow> ('k \<times> 'v) list" where
  "dict_of_pairs ps = foldl (\<lambda>d (k, v). dict_set d k v) [] ps"

section \<open>calculate_investments\<close>

text \<open>
  \<open>current_prices\<close> is a pandas Series: labels (\<open>.index\<close>) with a price each, here a
  list of pairs. \<open>weights\<close> is a numpy array or a Series; \<open>zip\<close> iterates its values.
\<close>

definition total_investment :: "transaction list \<Rightarrow> real" where
  "total_investment transactions = sum_list (map tx_amount transactions)"

definition calculate_investments ::
  "transaction list \<Rightarrow> real list \<Rightarrow> (string \<times> real) list \<Rightarrow> (string \<times> real) list" where
  "calculate_investments transactions weights current_prices =
     dict_of_pairs
       (map (\<lambda>(stock, weight). (stock, weight * total_investment transactions))
            (zip (map fst current_prices) weights))"

section \<open>Tables and series\<close>

text \<open>
  A pandas DataFrame is its column labels and its rows, each row a date label with one
  value per column (\<open>wf_frame\<close>: pandas tables are rectangular). A Series is a list of
  dated values. A value that may be NaN is a \<open>real option\<close>, \<open>None\<close> for NaN; after
  \<open>dropna\<close> the values are plain reals.
\<close>

record 'v frame =
  columns :: "string list"
  rows :: "(date \<times> 'v list) list"

type_synonym 'v series = "(date \<times> 'v) list"

definition index :: "(date \<times> 'a) list \<Rightarrow> date list" where
  "index s = map fst s"

definition wf_frame :: "'v frame \<Rightarrow> bool" where
  "wf_frame f = list_all (\<lambda>(d, vs). length vs = length (columns f)) (rows f)"

text \<open>\<open>Series.dropna()\<close> removes the NaN entries.\<close>

fun dropna :: "real option series \<Rightarrow> real series" where
  "dropna [] = []"
| "dropna ((d, None) # s) = dropna s"
| "dropna ((d, Some v) # s) = (d, v) # dropna s"

text \<open>\<open>DataFrame.dropna()\<close> removes every row that holds a NaN.\<close>

fun dropna_rows :: "(date \<times> real option list) list \<Rightarrow> (date \<times> real list) list" where
  "dropna_rows [] = []"
| "dropna_rows ((d, vs) # rs) =
     (case those vs of None \<Rightarrow> dropna_rows rs | Some ws \<Rightarrow> (d, ws) # dropna_rows rs)"

definition dropna_frame :: "real option frame \<Rightarrow> real frame" where
  "dropna_frame f = \<lparr>columns = columns f, rows = dropna_rows (rows f)\<rparr>"

text \<open>
  \<open>Series.reindex(labels)\<close>: the value at each requested label, NaN where the series
  has none. pandas copies the series when the labels are its own index, and otherwise
  raises ValueError on a series whose index holds a label twice.
\<close>

definition reindex :: "real series \<Rightarrow> date list \<Rightarrow> error + real option series" where
  "reindex s labels =
     (if index s = labels then Inr (map (\<lambda>(d, v). (d, Some v)) s)
      else if \<not> distinct (index s) then Inl ValueError
      else Inr (map (\<lambda>d. (d, map_of s d)) labels))"

text \<open>
  \<open>.loc[labels]\<close>: for each requested label the entries that carry it, in the order of
  the request; KeyError when a label is missing.
\<close>

fun loc :: "(date \<times> 'a) list \<Rightarrow> date list \<Rightarrow> error + (date \<times> 'a) list" where
  "loc s [] = Inr []"
| "loc s (d # ds) =
     (if d \<notin> set (index s) then Inl KeyError
      else (case loc s ds of
              Inl e \<Rightarrow> Inl e
            | Inr r \<Rightarrow> Inr (filter (\<lambda>(d', v). d' = d) s @ r)))"

section \<open>update_data\<close>

text \<open>
  The download and \<open>pct_change()\<close> are the data provider's and pandas's: the arguments
  here are their results, \<open>stock_data.pct_change()\<close> and
  \<open>load_market_data(...).pct_change()\<close>, NaN where a return is undefined.
\<close>

definition update_data ::
  "real option frame \<Rightarrow> real option series \<Rightarrow> error + (real frame \<times> real series)" where
  "update_data stock_pct_change market_pct_change =
     (let daily_returns = dropna_frame stock_pct_change;
          market_daily_returns = dropna market_pct_change
      in case reindex market_daily_returns (index (rows daily_returns)) of
           Inl e \<Rightarrow> Inl e
         | Inr reindexed \<Rightarrow>
             (let market_daily_returns = dropna reindexed
              in case loc (rows daily_returns) (index market_daily_returns) of
                   Inl e \<Rightarrow> Inl e
                 | Inr rs \<Rightarrow> Inr (daily_returns\<lparr>rows := rs\<rparr>, market_daily_returns)))"

section \<open>numpy statistics\<close>

text \<open>
  A numpy float: a real, an infinity or NaN. numpy's division does not raise at a zero
  divisor: it yields NaN for \<open>0/0\<close> and an infinity otherwise. The sign of a zero is not
  modelled (a zero divisor counts as \<open>+0\<close>, as a standard deviation or variance is).
\<close>

datatype npfloat = Fin real | PInf | NInf | NaN

fun np_div :: "npfloat \<Rightarrow> npfloat \<Rightarrow> npfloat" where
  "np_div NaN y = NaN"
| "np_div x NaN = NaN"
| "np_div (Fin a) (Fin b) =
     (if b \<noteq> 0 then Fin (a / b) else if a = 0 then NaN else if 0 < a then PInf else NInf)"
| "np_div (Fin a) y = Fin 0"
| "np_div PInf (Fin b) = (if 0 \<le> b then PInf else NInf)"
| "np_div NInf (Fin b) = (if 0 \<le> b then NInf else PInf)"
| "np_div x y = NaN"

definition mean :: "real list \<Rightarrow> real" where
  "mean xs = sum_list xs / real (length xs)"

text \<open>The sum of the products of the deviations from the means.\<close>

definition codev :: "real list \<Rightarrow> real list \<Rightarrow> real" where
  "codev xs ys = (\<Sum>(x, y) \<leftarrow> zip xs ys. (x - mean xs) * (y - mean ys))"

text \<open>\<open>np.mean\<close> and \<open>np.std\<close> (ddof = 0) of an array; NaN on an empty one.\<close>

definition np_mean :: "real list \<Rightarrow> npfloat" where
  "np_mean xs = (if xs = [] then NaN else Fin (mean xs))"

definition np_std :: "real list \<Rightarrow> npfloat" where
  "np_std xs = (if xs = [] then NaN else Fin (sqrt (codev xs xs / real (length xs))))"

text \<open>
  \<open>np.var\<close> of a pandas Series calls \<open>Series.var(ddof=0)\<close> with numpy's default
  \<open>ddof = 0\<close>: the population variance.
\<close>

definition np_var :: "real list \<Rightarrow> npfloat" where
  "np_var xs = (if xs = [] then NaN else Fin (codev xs xs / real (length xs)))"

text \<open>
  \<open>np.cov(x, y)[0][1]\<close>: numpy's default normalisation is by \<open>N - 1\<close>; with fewer
  than two observations the entry is NaN, and arrays of different lengths raise
  ValueError.
\<close>

definition np_cov01 :: "real list \<Rightarrow> real list \<Rightarrow> error + npfloat" where
  "np_cov01 xs ys =
     (if length xs \<noteq> length ys then Inl ValueError
      else if length xs \<le> 1 then Inr NaN
      else Inr (Fin (codev xs ys / (real (length xs) - 1))))"

text \<open>\<open>np.dot(values, weights.reshape(-1, 1))\<close>, one entry per row.\<close>

definition dot :: "real list \<Rightarrow> real list \<Rightarrow> real" where
  "dot vs ws = (\<Sum>(v, w) \<leftarrow> zip vs ws. v * w)"

section \<open>calculate_portfolio_statistics\<close>

text \<open>The loop that sums the invested amounts per stock into a dict.\<close>

fun invested_amounts :: "(string \<times> real) list \<Rightarrow> transaction list \<Rightarrow> (string \<times> real) list" where
  "invested_amounts d [] = d"
| "invested_amounts d (t # ts) =
     (case map_of d (tx_stock t) of
        Some a \<Rightarrow> invested_amounts (dict_set d (tx_stock t) (a + tx_amount t)) ts
      | None \<Rightarrow> invested_amounts (dict_set d (tx_stock t) (tx_amount t)) ts)"

text \<open>
  \<open>[invested_amounts[stock] / total_invested for stock in unique_stocks]\<close>: a missing
  stock raises KeyError, and Python's division raises ZeroDivisionError at a zero total.
\<close>

fun portfolio_weights :: "(string \<times> real) list \<Rightarrow> real \<Rightarrow> string list \<Rightarrow> error + real list" where
  "portfolio_weights d total_invested [] = Inr []"
| "portfolio_weights d total_invested (stock # stocks) =
     (case map_of d stock of
        None \<Rightarrow> Inl KeyError
      | Some a \<Rightarrow>
          (if total_invested = 0 then Inl ZeroDivisionError
           else (case portfolio_weights d total_invested stocks of
                   Inl e \<Rightarrow> Inl e
                 | Inr ws \<Rightarrow> Inr (a / total_invested # ws))))"

text \<open>Line 78: the Sharpe ratio, a division of two numpy floats.\<close>

definition sharpe_of :: "real list \<Rightarrow> npfloat" where
  "sharpe_of portfolio_daily_returns =
     np_div (np_mean portfolio_daily_returns) (np_std portfolio_daily_returns)"

text \<open>Lines 80 and 82: the benchmark returns on the dates of the instrument returns.\<close>

definition market_on :: "real option series \<Rightarrow> date list \<Rightarrow> error + real series" where
  "market_on market_pct_change labels =
     (case reindex (dropna market_pct_change) labels of
        Inl e \<Rightarrow> Inl e
      | Inr reindexed \<Rightarrow> Inr (dropna reindexed))"

text \<open>Lines 83 and 84: the portfolio returns on the benchmark's dates, and beta.\<close>

definition beta_of :: "real series \<Rightarrow> real series \<Rightarrow> error + npfloat" where
  "beta_of portfolio_series market_daily_returns =
     (case loc portfolio_series (index market_daily_returns) of
        Inl e \<Rightarrow> Inl e
      | Inr portfolio_daily_returns \<Rightarrow>
          (case np_cov01 (map snd portfolio_daily_returns) (map snd market_daily_returns) of
             Inl e \<Rightarrow> Inl e
           | Inr c \<Rightarrow> Inr (np_div c (np_var (map snd market_daily_returns)))))"

text \<open>
  The whole function, on the results of the two downloads after \<open>pct_change()\<close>. It
  returns \<open>(portfolio_return, portfolio_risk, sharpe_ratio, beta)\<close>.
\<close>

definition calculate_portfolio_statistics ::
  "transaction list \<Rightarrow> real option frame \<Rightarrow> real option series \<Rightarrow>
   error + (npfloat \<times> npfloat \<times> npfloat \<times> npfloat)" where
  "calculate_portfolio_statistics transactions stock_pct_change market_pct_change =
     (let daily_returns = dropna_frame stock_pct_change;
          unique_stocks = columns daily_returns;
          amounts = invested_amounts [] transactions;
          total_invested = sum_list (map snd amounts)
      in case portfolio_weights amounts total_invested unique_stocks of
           Inl e \<Rightarrow> Inl e
         | Inr weights \<Rightarrow>
             (let portfolio_daily_returns = map (\<lambda>(d, vs). dot vs weights) (rows daily_returns);
                  portfolio_return = np_mean portfolio_daily_returns;
                  portfolio_risk = np_std portfolio_daily_returns;
                  sharpe_ratio = sharpe_of portfolio_daily_returns
              in case market_on market_pct_change (index (rows daily_returns)) of
                   Inl e \<Rightarrow> Inl e
                 | Inr market_daily_returns \<Rightarrow>
                     (case beta_of (zip (index (rows daily_returns)) portfolio_daily_returns)
                                   market_daily_returns of
                        Inl e \<Rightarrow> Inl e
                      | Inr beta \<Rightarrow>
                          Inr (portfolio_return, portfolio_risk, sharpe_ratio, beta))))"

text \<open>
  The definition of beta with one normalisation for both terms: the covariance and the
  variance divide by \<open>N - ddof\<close> with the same \<open>ddof\<close>.
\<close>

definition beta_same_ddof :: "real \<Rightarrow> real list \<Rightarrow> real list \<Rightarrow> real" where
  "beta_same_ddof ddof p m =
     (codev p m / (real (length p) - ddof)) / (codev m m / (real (length m) - ddof))"

section \<open>The weights of the strategies\<close>












text \<open>
  \<open>EWP_inner\<close>: zeros, then \<open>1 / len(selected_stocks)\<close> at the place of each selected
  stock. \<open>get_loc\<close> raises KeyError for a label that is no column, and addresses every
  column that carries the label.
\<close>

fun EWP_loop :: "string list \<Rightarrow> nat \<Rightarrow> real list \<Rightarrow> string list \<Rightarrow> error + real list" where
  "EWP_loop cols n weight [] = Inr weight"
| "EWP_loop cols n weight (stock # stocks) =
     (if stock \<notin> set cols then Inl KeyError
      else EWP_loop cols n
             (map (\<lambda>(c, w). if c = stock then 1 / real n else w) (zip cols weight)) stocks)"

definition EWP_inner :: "real frame \<Rightarrow> string list \<Rightarrow> error + real list" where
  "EWP_inner returns selected_stocks =
     EWP_loop (columns returns) (length selected_stocks)
       (replicate (length (columns returns)) 0) selected_stocks"

text \<open>
  \<open>returns[selected_stocks]\<close>: the columns with the requested labels, in the order of
  the request; KeyError when a label is no column.
\<close>

definition select_row :: "string list \<Rightarrow> string list \<Rightarrow> 'v list \<Rightarrow> 'v list" where
  "select_row cols selected vs =
     concat (map (\<lambda>s. map snd (filter (\<lambda>(c, v). c = s) (zip cols vs))) selected)"

definition select_columns :: "'v frame \<Rightarrow> string list \<Rightarrow> error + 'v frame" where
  "select_columns f selected =
     (if \<not> set selected \<subseteq> set (columns f) then Inl KeyError
      else Inr \<lparr>columns = concat (map (\<lambda>s. filter (\<lambda>c. c = s) (columns f)) selected),
                rows = map (\<lambda>(d, vs). (d, select_row (columns f) selected vs)) (rows f)\<rparr>)"

text \<open>\<open>DataFrame.sum()\<close>: the sum of each column over the rows.\<close>

definition frame_sum :: "real frame \<Rightarrow> real list" where
  "frame_sum f = map (\<lambda>j. \<Sum>(d, vs) \<leftarrow> rows f. vs ! j) [0 ..< length (columns f)]"

text \<open>
  The inner \<open>RWP\<close>: the column sums divided by their total, a pandas division by a
  numpy float.
\<close>

definition RWP_inner :: "real frame \<Rightarrow> string list \<Rightarrow> error + npfloat list" where
  "RWP_inner returns selected_stocks =
     (case select_columns returns selected_stocks of
        Inl e \<Rightarrow> Inl e
      | Inr selected \<Rightarrow>
          Inr (map (\<lambda>s. np_div (Fin s) (Fin (sum_list (frame_sum selected))))
                   (frame_sum selected)))"

text \<open>
  The ReturnWeighted rule in the words of the specification: the return of an
  instrument on a date is its cell of the table, and the weight of an instrument is its
  summed return over the summed returns of all selected instruments.
\<close>

definition cell :: "string list \<Rightarrow> real list \<Rightarrow> string \<Rightarrow> real" where
  "cell cols vs s = (case map_of (zip cols vs) s of Some v \<Rightarrow> v | None \<Rightarrow> 0)"

definition summed_return :: "real frame \<Rightarrow> string \<Rightarrow> real" where
  "summed_return f s = (\<Sum>(d, vs) \<leftarrow> rows f. cell (columns f) vs s)"

definition return_weighted :: "real frame \<Rightarrow> string list \<Rightarrow> real list" where
  "return_weighted f selected =
     map (\<lambda>i. summed_return f i / (\<Sum>j \<leftarrow> selected. summed_return f j)) selected"

section \<open>Properties of calculate_investments\<close>

lemma dict_set_fresh: "k \<notin> fst ` set d \<Longrightarrow> dict_set d k v = d @ [(k, v)]"
  by (induction d) auto

lemma foldl_dict_set_distinct:
  "distinct (map fst ps) \<Longrightarrow> fst ` set d \<inter> fst ` set ps = {} \<Longrightarrow>
   foldl (\<lambda>d (k, v). dict_set d k v) d ps = d @ ps"
proof (induction ps arbitrary: d)
  case Nil
  then show ?case by simp
next
  case (Cons p ps)
  obtain k v where p: "p = (k, v)" by (cases p)
  from Cons.prems p have fresh: "k \<notin> fst ` set d" by auto
  have "fst ` set (d @ [(k, v)]) \<inter> fst ` set ps = {}"
    using Cons.prems p by (auto simp: image_iff)
  moreover have "distinct (map fst ps)" using Cons.prems by simp
  ultimately have "foldl (\<lambda>d (k, v). dict_set d k v) (d @ [(k, v)]) ps = (d @ [(k, v)]) @ ps"
    by (rule Cons.IH[rotated])
  then show ?case using fresh p by (simp add: dict_set_fresh)
qed

lemma dict_of_pairs_distinct: "distinct (map fst ps) \<Longrightarrow> dict_of_pairs ps = ps"
  using foldl_dict_set_distinct[of ps "[]"] by (simp add: dict_of_pairs_def)

lemma map_fst_scaled_zip:
  "map fst (map (\<lambda>(stock, weight). (stock, weight * c)) (zip xs ws)) = take (length ws) xs"
  by (induction xs ws rule: list_induct2') auto

lemma scaled_zip_eq:
  "map (\<lambda>(stock, weight). (stock, weight * c)) (zip xs ws) = zip xs (map (\<lambda>w. w * c) ws)"
  by (induction xs ws rule: list_induct2') auto

lemma calculate_investments_distinct:
  assumes "distinct (map fst current_prices)"
  shows "calculate_investments transactions weights current_prices =
         zip (map fst current_prices)
             (map (\<lambda>w. w * total_investment transactions) weights)"
proof -
  let ?ps = "map (\<lambda>(stock, weight). (stock, weight * total_investment transactions))
                 (zip (map fst current_prices) weights)"
  have "distinct (map fst ?ps)"
    using assms by (simp only: map_fst_scaled_zip distinct_take)
  then have "dict_of_pairs ?ps = ?ps" by (rule dict_of_pairs_distinct)
  then show ?thesis by (simp add: calculate_investments_def scaled_zip_eq)
qed

lemma sum_list_map_snd_zip_scaled:
  "sum_list (map snd (zip xs (map (\<lambda>w. w * (c::real)) ws))) = c * sum_list (take (length xs) ws)"
  by (induction xs ws rule: list_induct2') (auto simp: algebra_simps)

lemma map_of_dict_set: "map_of (dict_set d k v) = (map_of d)(k \<mapsto> v)"
  by (induction d) (auto simp: fun_eq_iff)

lemma keys_dict_set:
  "map fst (dict_set d k v) = (if k \<in> set (map fst d) then map fst d else map fst d @ [k])"
  by (induction d) force+

lemma map_of_foldl_dict_set:
  "map_of (foldl (\<lambda>d (k, v). dict_set d k v) d ps) = map_of d ++ map_of (rev ps)"
proof (induction ps arbitrary: d)
  case Nil
  then show ?case by simp
next
  case (Cons p ps)
  obtain k v where p: "p = (k, v)" by (cases p)
  have "map_of (foldl (\<lambda>d (k, v). dict_set d k v) (dict_set d k v) ps)
        = (map_of d)(k \<mapsto> v) ++ map_of (rev ps)"
    by (simp only: Cons.IH map_of_dict_set)
  also have "\<dots> = map_of d ++ map_of (rev ps @ [(k, v)])"
    by (simp add: map_add_def fun_eq_iff split: option.splits)
  finally show ?case by (simp add: p)
qed

lemma remdups_drop_repeated:
  "k \<in> set ys \<Longrightarrow> remdups (xs @ k # ys) = remdups (xs @ ys)"
  by (induction xs) auto

lemma keys_foldl_dict_set:
  "map fst (foldl (\<lambda>d (k, v). dict_set d k v) d ps)
   = rev (remdups (rev (map fst d @ map fst ps)))" if "distinct (map fst d)"
  using that
proof (induction ps arbitrary: d)
  case Nil
  then show ?case by (simp add: distinct_remdups_id)
next
  case (Cons p ps)
  obtain k v where p: "p = (k, v)" by (cases p)
  have dist: "distinct (map fst (dict_set d k v))"
    using Cons.prems by (simp add: keys_dict_set)
  have "map fst (foldl (\<lambda>d (k, v). dict_set d k v) (dict_set d k v) ps)
        = rev (remdups (rev (map fst (dict_set d k v) @ map fst ps)))"
    using dist by (rule Cons.IH)
  also have "\<dots> = rev (remdups (rev (map fst d @ k # map fst ps)))"
  proof (cases "k \<in> set (map fst d)")
    case True
    then have "remdups (rev (map fst ps) @ k # rev (map fst d))
               = remdups (rev (map fst ps) @ rev (map fst d))"
      by (intro remdups_drop_repeated) simp
    then show ?thesis using True by (simp add: keys_dict_set)
  next
    case False
    then show ?thesis by (simp add: keys_dict_set)
  qed
  finally show ?case by (simp add: p)
qed

lemma keys_dict_of_pairs: "map fst (dict_of_pairs ps) = rev (remdups (rev (map fst ps)))"
  using keys_foldl_dict_set[of "[]" ps] by (simp add: dict_of_pairs_def)

lemma map_of_dict_of_pairs: "map_of (dict_of_pairs ps) = map_of (rev ps)"
  using map_of_foldl_dict_set[of "[]" ps] by (simp add: dict_of_pairs_def)

lemma calculate_investments_keys:
  "map fst (calculate_investments transactions weights current_prices)
   = rev (remdups (rev (take (length weights) (map fst current_prices))))"
  by (simp only: calculate_investments_def keys_dict_of_pairs map_fst_scaled_zip)

lemma calculate_investments_lookup:
  "map_of (calculate_investments transactions weights current_prices)
   = map_of (rev (zip (map fst current_prices)
                      (map (\<lambda>w. w * total_investment transactions) weights)))"
  by (simp only: calculate_investments_def map_of_dict_of_pairs scaled_zip_eq)

lemma zip_take_both: "zip xs ys = zip (take (length ys) xs) (take (length xs) ys)"
  by (induction xs ys rule: list_induct2') auto

text \<open>
  C7, as the code has it. \<open>total_investment\<close> is the sum of \<open>amount_invested\<close> over
  all transactions. Labels and weights are paired by position and cut to the shorter of
  the two: the keys of the allocation are the labels of \<open>current_prices\<close> that have a
  weight at their position, in the order of their first occurrence, and each key is
  mapped to the weight at its last such position times the total. With pairwise
  different labels this is the list of the first labels with the weights at the same
  positions times the total; a label beyond the weight vector gets no entry. For the
  transactions \<open>[("A", d1, 10, 1000), ("B", d1, 5, 500)]\<close>, weights \<open>[0.5, 0.5]\<close> and
  prices \<open>{A: 100, B: 50}\<close> the allocation is \<open>{A: 750, B: 750}\<close>.
\<close>

theorem calculate_investments_allocation:
  "map fst (calculate_investments transactions weights current_prices)
     = rev (remdups (rev (take (length weights) (map fst current_prices))))
   \<and> map_of (calculate_investments transactions weights current_prices)
     = map_of (rev (zip (map fst current_prices)
         (map (\<lambda>w. w * sum_list (map (\<lambda>(stock, d, quantity, amount_invested). amount_invested)
                                      transactions)) weights)))
   \<and> (distinct (map fst current_prices) \<longrightarrow>
      calculate_investments transactions weights current_prices =
      zip (take (length weights) (map fst current_prices))
          (map (\<lambda>w. w * sum_list (map (\<lambda>(stock, d, quantity, amount_invested). amount_invested)
                                       transactions))
               (take (length current_prices) weights)))
   \<and> calculate_investments [(''A'', 1, 10, 1000), (''B'', 1, 5, 500)] [1/2, 1/2]
        [(''A'', 100), (''B'', 50)] = [(''A'', 750), (''B'', 750)]"
proof -
  have amt: "tx_amount = (\<lambda>(stock, d, quantity, amount_invested). amount_invested)"
    by (auto simp: tx_amount_def fun_eq_iff)
  have tot: "sum_list (map (\<lambda>(stock, d, quantity, amount_invested). amount_invested)
               transactions) = total_investment transactions"
    by (simp add: total_investment_def amt)
  have ex: "calculate_investments [(''A'', 1, 10, 1000), (''B'', 1, 5, 500)] [1/2, 1/2]
        [(''A'', 100), (''B'', 50)] = [(''A'', 750), (''B'', 750)]"
    by (simp add: calculate_investments_def dict_of_pairs_def total_investment_def tx_amount_def)
  have cut: "distinct (map fst current_prices) \<longrightarrow>
      calculate_investments transactions weights current_prices =
      zip (take (length weights) (map fst current_prices))
          (map (\<lambda>w. w * total_investment transactions) (take (length current_prices) weights))"
    using zip_take_both[of "map fst current_prices"
        "map (\<lambda>w. w * total_investment transactions) weights"]
    by (simp add: calculate_investments_distinct take_map)
  show ?thesis
    unfolding tot
    using calculate_investments_keys[of transactions weights current_prices]
      calculate_investments_lookup[of transactions weights current_prices] cut ex
    by blast
qed

theorem calculate_investments_allocation_witness:
  "distinct (map fst [(''A'', 100::real), (''B'', 50)])
   \<and> calculate_investments [(''A'', 1, 10, 1000), (''B'', 1, 5, 500)] [1/2, 1/2]
        [(''A'', 100), (''B'', 50)]
     = zip [''A'', ''B''] [1/2 * (1000 + 500), 1/2 * (1000 + 500)]"
  using calculate_investments_allocation
    [of "[(''A'', 1, 10, 1000), (''B'', 1, 5, 500)]" "[1/2, 1/2]" "[(''A'', 100), (''B'', 50)]"]
  by simp

text \<open>
  The claim that every instrument present in \<open>current_prices\<close> is mapped fails when the
  weight vector is the shorter one: with the single weight \<open>0.5\<close> and the labels A, B,
  C only A gets an amount.
\<close>

theorem calculate_investments_short_weights_counterexample:
  "calculate_investments [(''A'', 1, 10, 1000), (''B'', 1, 5, 500)] [1/2]
     [(''A'', 100), (''B'', 50), (''C'', 1)] = [(''A'', 750)]"
  by (simp add: calculate_investments_def dict_of_pairs_def total_investment_def tx_amount_def)

text \<open>
  C9. Two \<open>current_prices\<close> series with the same labels in the same order give the same
  allocation, whatever their price values: the prices are never read.
\<close>

theorem calculate_investments_ignores_prices:
  "map fst current_prices = map fst current_prices' \<Longrightarrow>
   calculate_investments transactions weights current_prices =
   calculate_investments transactions weights current_prices'"
  by (simp add: calculate_investments_def)

theorem calculate_investments_ignores_prices_witness:
  "map fst [(''A'', 100::real), (''B'', 50)] = map fst [(''A'', 7::real), (''B'', 0)]
   \<and> calculate_investments [(''A'', 1, 10, 1000), (''B'', 1, 5, 500)] [1/4, 3/4]
        [(''A'', 100), (''B'', 50)]
     = calculate_investments [(''A'', 1, 10, 1000), (''B'', 1, 5, 500)] [1/4, 3/4]
        [(''A'', 7), (''B'', 0)]"
  using calculate_investments_ignores_prices
    [of "[(''A'', 100), (''B'', 50)]" "[(''A'', 7), (''B'', 0)]"
        "[(''A'', 1, 10, 1000), (''B'', 1, 5, 500)]" "[1/4, 3/4]"]
  by simp

text \<open>
  C10, as the code has it. Weights and labels are paired by position and cut to the
  shorter of the two: with \<open>k\<close> pairwise different labels and \<open>m\<close> weights the
  allocation is the list of the first \<open>min k m\<close> labels, each with the weight at the
  same position times the total invested. It has \<open>min k m\<close> entries, and its amounts sum
  to the total invested times the sum of the first \<open>min k m\<close> weights; for a positive
  total they sum to less than the total exactly when these weights sum to less than 1.
\<close>

theorem calculate_investments_truncates:
  "distinct (map fst current_prices) \<Longrightarrow>
   calculate_investments transactions weights current_prices
     = zip (take (length weights) (map fst current_prices))
           (map (\<lambda>w. w * total_investment transactions) (take (length current_prices) weights))
   \<and> length (calculate_investments transactions weights current_prices)
     = min (length current_prices) (length weights)
   \<and> sum_list (map snd (calculate_investments transactions weights current_prices))
     = total_investment transactions
       * sum_list (take (min (length current_prices) (length weights)) weights)
   \<and> (0 < total_investment transactions \<longrightarrow>
        (sum_list (map snd (calculate_investments transactions weights current_prices))
           < total_investment transactions
         \<longleftrightarrow> sum_list (take (min (length current_prices) (length weights)) weights) < 1))"
proof -
  assume d: "distinct (map fst current_prices)"
  let ?T = "total_investment transactions"
  let ?r = "calculate_investments transactions weights current_prices"
  let ?S = "sum_list (take (min (length current_prices) (length weights)) weights)"
  have eq: "?r = zip (take (length weights) (map fst current_prices))
                     (map (\<lambda>w. w * ?T) (take (length current_prices) weights))"
    using zip_take_both[of "map fst current_prices" "map (\<lambda>w. w * ?T) weights"] d
    by (simp add: calculate_investments_distinct take_map)
  have len: "length ?r = min (length current_prices) (length weights)"
    using d by (simp add: calculate_investments_distinct)
  have "take (min (length current_prices) (length weights)) weights
        = take (length current_prices) weights"
    by (simp add: min_def)
  then have sum: "sum_list (map snd ?r) = ?T * ?S"
    using d by (simp add: calculate_investments_distinct sum_list_map_snd_zip_scaled)
  have "0 < ?T \<longrightarrow> (sum_list (map snd ?r) < ?T \<longleftrightarrow> ?S < 1)"
    unfolding sum by (simp add: mult_less_cancel_left2)
  with eq len sum show ?thesis by blast
qed

theorem calculate_investments_truncates_witness:
  "distinct (map fst [(''A'', 100::real)])
   \<and> 0 < total_investment [(''A'', 1, 10, 1000), (''B'', 1, 5, 500)]
   \<and> calculate_investments [(''A'', 1, 10, 1000), (''B'', 1, 5, 500)] [1/2, 1/2]
        [(''A'', 100)] = [(''A'', 750)]
   \<and> length (calculate_investments [(''A'', 1, 10, 1000), (''B'', 1, 5, 500)] [1/2, 1/2]
        [(''A'', 100)]) = min (length [(''A'', 100::real)]) (length [1/2, 1/2 :: real])
   \<and> sum_list (map snd (calculate_investments [(''A'', 1, 10, 1000), (''B'', 1, 5, 500)]
        [1/2, 1/2] [(''A'', 100)]))
     < total_investment [(''A'', 1, 10, 1000), (''B'', 1, 5, 500)]"
  using calculate_investments_truncates
    [of "[(''A'', 100)]" "[(''A'', 1, 10, 1000), (''B'', 1, 5, 500)]" "[1/2, 1/2]"]
  by (simp add: total_investment_def tx_amount_def)

text \<open>
  The claim that surplus weights always leave the amounts below the total fails when
  the surplus weight is 0: one label, weights \<open>[1, 0]\<close>, and the single amount is the
  whole total.
\<close>

theorem calculate_investments_surplus_counterexample:
  "length [1, 0 :: real] > length [(''A'', 100::real)]
   \<and> \<not> sum_list (map snd (calculate_investments [(''A'', 1, 10, 1000)] [1, 0] [(''A'', 100)]))
        < total_investment [(''A'', 1, 10, 1000)]"
  by (simp add: calculate_investments_def dict_of_pairs_def total_investment_def tx_amount_def)

section \<open>Properties of the strategy weights\<close>

lemma zip_map_zip:
  "length ws = length cols \<Longrightarrow>
   zip cols (map f (zip cols ws)) = map (\<lambda>(c, w). (c, f (c, w))) (zip cols ws)"
  by (induction ws cols rule: list_induct2) auto

lemma EWP_loop_result:
  "set stocks \<subseteq> set cols \<Longrightarrow> length weight = length cols \<Longrightarrow>
   EWP_loop cols n weight stocks
     = Inr (map (\<lambda>(c, w). if c \<in> set stocks then 1 / real n else w) (zip cols weight))"
proof (induction stocks arbitrary: weight)
  case Nil
  then show ?case by (simp add: map_snd_zip[symmetric] case_prod_unfold del: map_snd_zip)
next
  case (Cons s stocks)
  let ?w = "map (\<lambda>(c, w). if c = s then 1 / real n else w) (zip cols weight)"
  have len: "length ?w = length cols" using Cons.prems by simp
  have "EWP_loop cols n ?w stocks
        = Inr (map (\<lambda>(c, w). if c \<in> set stocks then 1 / real n else w) (zip cols ?w))"
    using Cons.prems by (intro Cons.IH len) simp
  also have "zip cols ?w = map (\<lambda>(c, w). (c, if c = s then 1 / real n else w)) (zip cols weight)"
    using Cons.prems(2) by (simp add: zip_map_zip case_prod_unfold)
  finally show ?case using Cons.prems by (auto simp: case_prod_unfold)
qed

lemma EWP_inner_result:
  assumes "set selected \<subseteq> set (columns f)"
  shows "EWP_inner f selected
         = Inr (map (\<lambda>c. if c \<in> set selected then 1 / real (length selected) else 0) (columns f))"
proof -
  have "zip (columns f) (replicate (length (columns f)) (0::real)) = map (\<lambda>c. (c, 0)) (columns f)"
    by (induction "columns f") (auto simp: zip_replicate2)
  then show ?thesis using assms
    by (simp add: EWP_inner_def EWP_loop_result comp_def)
qed


lemma filter_eq_distinct: "distinct cols \<Longrightarrow> s \<in> set cols \<Longrightarrow> filter (\<lambda>c. c = s) cols = [s]"
  by (induction cols) (auto simp: filter_empty_conv)

lemma filter_zip_cell:
  "length cols = length vs \<Longrightarrow> distinct cols \<Longrightarrow> s \<in> set cols \<Longrightarrow>
   map snd (filter (\<lambda>(c, v). c = s) (zip cols vs)) = [cell cols vs s]"
proof (induction cols vs rule: list_induct2)
  case Nil
  then show ?case by simp
next
  case (Cons c cols v vs)
  show ?case
  proof (cases "c = s")
    case True
    then have "s \<notin> set cols" using Cons.prems by simp
    then have "filter (\<lambda>(c, v). c = s) (zip cols vs) = []"
      by (auto simp: filter_empty_conv dest: set_zip_leftD)
    then show ?thesis using True by (simp add: cell_def)
  next
    case False
    then show ?thesis using Cons by (simp add: cell_def)
  qed
qed

lemma select_row_cells:
  "length vs = length cols \<Longrightarrow> distinct cols \<Longrightarrow> set selected \<subseteq> set cols \<Longrightarrow>
   select_row cols selected vs = map (cell cols vs) selected"
  by (induction selected) (auto simp: select_row_def filter_zip_cell)

lemma select_columns_cells:
  assumes "wf_frame f" "distinct (columns f)" "set selected \<subseteq> set (columns f)"
  shows "select_columns f selected
         = Inr \<lparr>columns = selected,
                rows = map (\<lambda>(d, vs). (d, map (cell (columns f) vs) selected)) (rows f)\<rparr>"
proof -
  have "concat (map (\<lambda>s. filter (\<lambda>c. c = s) (columns f)) selected) = selected"
    using assms(3) by (induction selected) (auto simp: filter_eq_distinct[OF assms(2)])
  moreover have "map (\<lambda>(d, vs). (d, select_row (columns f) selected vs)) (rows f)
        = map (\<lambda>(d, vs). (d, map (cell (columns f) vs) selected)) (rows f)"
    using assms by (auto simp: wf_frame_def list_all_iff select_row_cells)
  ultimately show ?thesis using assms(3) by (simp add: select_columns_def)
qed

lemma frame_sum_cells:
  "frame_sum \<lparr>columns = selected,
              rows = map (\<lambda>(d, vs). (d, map (cell cols vs) selected)) rs\<rparr>
   = map (\<lambda>s. \<Sum>(d, vs) \<leftarrow> rs. cell cols vs s) selected"
proof -
  have "map (\<lambda>j. \<Sum>(d, vs) \<leftarrow> map (\<lambda>(d, vs). (d, map (cell cols vs) selected)) rs. vs ! j)
            [0 ..< length selected]
        = map (\<lambda>j. (\<lambda>s. \<Sum>(d, vs) \<leftarrow> rs. cell cols vs s) (selected ! j)) [0 ..< length selected]"
    by (auto simp: comp_def case_prod_unfold intro!: arg_cong[where f=sum_list])
  also have "\<dots> = map (\<lambda>s. \<Sum>(d, vs) \<leftarrow> rs. cell cols vs s) selected"
  proof -
    have "map (\<lambda>s. \<Sum>(d, vs) \<leftarrow> rs. cell cols vs s) (map ((!) selected) [0 ..< length selected])
          = map (\<lambda>s. \<Sum>(d, vs) \<leftarrow> rs. cell cols vs s) selected"
      by (simp only: map_nth)
    then show ?thesis by (simp add: comp_def)
  qed
  finally show ?thesis by (simp add: frame_sum_def)
qed


lemma sum_list_divide: "sum_list (map (\<lambda>i. g i / (t::real)) xs) = sum_list (map g xs) / t"
  by (induction xs) (auto simp: add_divide_distrib)

lemma RWP_inner_cells:
  assumes "wf_frame f" "distinct (columns f)" "set selected \<subseteq> set (columns f)"
  shows "RWP_inner f selected
         = Inr (map (\<lambda>i. np_div (Fin (summed_return f i))
                                (Fin (\<Sum>j \<leftarrow> selected. summed_return f j))) selected)"
  by (simp add: RWP_inner_def select_columns_cells[OF assms] frame_sum_cells summed_return_def
        comp_def)

lemma RWP_inner_return_weighted:
  assumes "wf_frame f" "distinct (columns f)" "set selected \<subseteq> set (columns f)"
    and "(\<Sum>j \<leftarrow> selected. summed_return f j) \<noteq> 0"
  shows "RWP_inner f selected = Inr (map Fin (return_weighted f selected))"
  using assms(4) by (simp add: RWP_inner_cells[OF assms(1-3)] return_weighted_def comp_def)

lemma return_weighted_sum:
  "(\<Sum>j \<leftarrow> selected. summed_return f j) \<noteq> 0 \<Longrightarrow> sum_list (return_weighted f selected) = 1"
  by (simp add: return_weighted_def sum_list_divide)






text \<open>
  C6. For a non-empty list of \<open>N\<close> pairwise different selected stocks, all of them
  columns of the return table, \<open>EWP_inner\<close> gives \<open>1/N\<close> to each selected stock and 0
  to every other column.
\<close>

theorem EWP_inner_equal_weight:
  "selected \<noteq> [] \<Longrightarrow> distinct selected \<Longrightarrow> set selected \<subseteq> set (columns returns) \<Longrightarrow>
   EWP_inner returns selected
     = Inr (map (\<lambda>c. if c \<in> set selected then 1 / real (card (set selected)) else 0)
                (columns returns))"
  by (simp add: EWP_inner_result distinct_card)

theorem EWP_inner_equal_weight_witness:
  "[''C'', ''A''] \<noteq> [] \<and> distinct [''C'', ''A'']
   \<and> set [''C'', ''A''] \<subseteq> set (columns \<lparr>columns = [''A'', ''B'', ''C''], rows = [(1, [1, 2, 3])]\<rparr>)
   \<and> EWP_inner \<lparr>columns = [''A'', ''B'', ''C''], rows = [(1, [1, 2, 3])]\<rparr> [''C'', ''A'']
       = Inr [1/2, 0, 1/2]"
  using EWP_inner_equal_weight
    [of "[''C'', ''A'']" "\<lparr>columns = [''A'', ''B'', ''C''], rows = [(1, [1, 2, 3])]\<rparr>"]
  by simp

text \<open>
  C5. On a rectangular return table with pairwise different column labels, for selected
  stocks that are columns and a nonzero grand total, the inner \<open>RWP\<close> returns for each
  selected stock its summed daily return over the summed returns of all selected stocks
  (\<open>return_weighted\<close>, the rule in the specification's words), and these weights sum
  to 1.
\<close>

theorem RWP_inner_return_weights:
  "wf_frame returns \<Longrightarrow> distinct (columns returns) \<Longrightarrow>
   set selected \<subseteq> set (columns returns) \<Longrightarrow>
   (\<Sum>j \<leftarrow> selected. summed_return returns j) \<noteq> 0 \<Longrightarrow>
   RWP_inner returns selected = Inr (map Fin (return_weighted returns selected))
   \<and> sum_list (return_weighted returns selected) = 1"
  by (simp add: RWP_inner_return_weighted return_weighted_sum)

theorem RWP_inner_return_weights_witness:
  "wf_frame \<lparr>columns = [''A'', ''B''], rows = [(1, [1, 2 :: real]), (2, [2, 3])]\<rparr>
   \<and> distinct (columns \<lparr>columns = [''A'', ''B''], rows = [(1, [1, 2 :: real]), (2, [2, 3])]\<rparr>)
   \<and> set [''B'', ''A'']
        \<subseteq> set (columns \<lparr>columns = [''A'', ''B''], rows = [(1, [1, 2 :: real]), (2, [2, 3])]\<rparr>)
   \<and> (\<Sum>j \<leftarrow> [''B'', ''A''].
         summed_return \<lparr>columns = [''A'', ''B''], rows = [(1, [1, 2]), (2, [2, 3])]\<rparr> j) \<noteq> 0
   \<and> RWP_inner \<lparr>columns = [''A'', ''B''], rows = [(1, [1, 2]), (2, [2, 3])]\<rparr> [''B'', ''A'']
       = Inr [Fin (5/8), Fin (3/8)]"
  using RWP_inner_return_weights
    [of "\<lparr>columns = [''A'', ''B''], rows = [(1, [1, 2]), (2, [2, 3])]\<rparr>" "[''B'', ''A'']"]
  by (simp add: wf_frame_def summed_return_def cell_def return_weighted_def)




section \<open>Properties of update_data\<close>

lemma index_dropna: "index (dropna s) = map fst (filter (\<lambda>(d, v). v \<noteq> None) s)"
  by (induction s rule: dropna.induct) (auto simp: index_def)

lemma index_dropna_rows:
  "index (dropna_rows rs) = map fst (filter (\<lambda>(d, vs). those vs \<noteq> None) rs)"
  by (induction rs rule: dropna_rows.induct) (auto simp: index_def split: option.splits)

lemma distinct_index_filter: "distinct (index s) \<Longrightarrow> distinct (map fst (filter P s))"
  by (simp add: index_def distinct_map_filter)

lemma sorted_index_filter:
  "sorted_wrt (<) (index s) \<Longrightarrow> sorted_wrt (<) (map fst (filter P s))"
  by (induction s) (auto simp: index_def)

lemma reindex_distinct:
  assumes "distinct (index s)"
  shows "reindex s labels = Inr (map (\<lambda>d. (d, map_of s d)) labels)"
proof -
  have "map (\<lambda>(d, v). (d, Some v)) s = map (\<lambda>d. (d, map_of s d)) (index s)"
    using assms by (auto simp: index_def)
  then show ?thesis using assms by (auto simp: reindex_def)
qed

lemma index_dropna_map:
  "index (dropna (map (\<lambda>d. (d, g d)) labels)) = filter (\<lambda>d. g d \<noteq> None) labels"
  by (induction labels) (auto simp: index_def)

lemma filter_label_distinct:
  "distinct (map fst s) \<Longrightarrow> d \<in> fst ` set s \<Longrightarrow>
   map fst (filter (\<lambda>(d', v). d' = d) s) = [d]"
proof (induction s)
  case Nil
  then show ?case by simp
next
  case (Cons p s)
  show ?case
  proof (cases "fst p = d")
    case True
    then have "d \<notin> fst ` set s" using Cons.prems by auto
    then have "filter (\<lambda>(d', v). d' = d) s = []" by (auto simp: filter_empty_conv image_iff)
    then show ?thesis using True by (simp add: case_prod_unfold)
  next
    case False
    then show ?thesis using Cons by (auto simp: case_prod_unfold)
  qed
qed

lemma loc_index:
  "distinct (index s) \<Longrightarrow> set labels \<subseteq> set (index s) \<Longrightarrow>
   \<exists>r. loc s labels = Inr r \<and> index r = labels"
proof (induction labels)
  case Nil
  then show ?case by (simp add: index_def)
next
  case (Cons d ds)
  then obtain r where r: "loc s ds = Inr r" "index r = ds" by auto
  have "map fst (filter (\<lambda>(d', v). d' = d) s) = [d]"
    using Cons.prems by (intro filter_label_distinct) (auto simp: index_def)
  then show ?case using r Cons.prems by (simp add: index_def)
qed


lemma update_data_aligned:
  assumes "sorted_wrt (<) (index (rows stock_pct_change))"
    and "distinct (index market_pct_change)"
  shows "\<exists>daily_returns market_daily_returns.
           update_data stock_pct_change market_pct_change
             = Inr (daily_returns, market_daily_returns)
           \<and> index (rows daily_returns) = index market_daily_returns
           \<and> index market_daily_returns
               = filter (\<lambda>d. d \<in> set (index (dropna market_pct_change)))
                   (index (rows (dropna_frame stock_pct_change)))
           \<and> sorted_wrt (<) (index market_daily_returns)"
proof -
  let ?dr = "dropna_frame stock_pct_change"
  let ?m = "dropna market_pct_change"
  let ?F = "index (rows ?dr)"
  have sF: "sorted_wrt (<) ?F"
    using assms(1) by (simp add: dropna_frame_def index_dropna_rows sorted_index_filter)
  then have dF: "distinct ?F" by (simp add: strict_sorted_iff)
  have dM: "distinct (index ?m)"
    using assms(2) by (simp add: index_dropna distinct_index_filter)
  have re: "reindex ?m ?F = Inr (map (\<lambda>d. (d, map_of ?m d)) ?F)"
    using dM by (rule reindex_distinct)
  let ?m' = "dropna (map (\<lambda>d. (d, map_of ?m d)) ?F)"
  have im': "index ?m' = filter (\<lambda>d. d \<in> set (index ?m)) ?F"
    by (simp only: index_dropna_map) (simp add: index_def map_of_eq_None_iff)
  then have "set (index ?m') \<subseteq> set ?F" by auto
  with dF obtain rs where rs: "loc (rows ?dr) (index ?m') = Inr rs" "index rs = index ?m'"
    using loc_index[of "rows ?dr" "index ?m'"] by auto
  have "update_data stock_pct_change market_pct_change = Inr (?dr\<lparr>rows := rs\<rparr>, ?m')"
    using re rs(1) by (simp add: update_data_def Let_def)
  moreover have "sorted_wrt (<) (index ?m')"
    using sF by (simp add: im' sorted_wrt_filter)
  ultimately show ?thesis using rs(2) im' by auto
qed

text \<open>
  C8. For return series indexed by dates (the instrument table's dates ascending, the
  benchmark's pairwise different), \<open>update_data\<close> returns, and the returned table and
  benchmark series carry the same dates in the same ascending order: the dates of the
  instrument returns that are also dates of the benchmark returns. A date of only one
  of the two return series is in neither output.
\<close>

theorem update_data_alignment:
  assumes "sorted_wrt (<) (index (rows stock_pct_change))"
    and "distinct (index market_pct_change)"
  shows "\<exists>daily_returns market_daily_returns.
           update_data stock_pct_change market_pct_change
             = Inr (daily_returns, market_daily_returns)
           \<and> index (rows daily_returns) = index market_daily_returns
           \<and> index market_daily_returns
               = filter (\<lambda>d. d \<in> set (index (dropna market_pct_change)))
                   (index (rows (dropna_frame stock_pct_change)))
           \<and> sorted_wrt (<) (index market_daily_returns)
           \<and> set (index market_daily_returns)
               = set (index (rows (dropna_frame stock_pct_change)))
                 \<inter> set (index (dropna market_pct_change))"
proof -
  obtain dr mr where h: "update_data stock_pct_change market_pct_change = Inr (dr, mr)"
    "index (rows dr) = index mr"
    "index mr = filter (\<lambda>d. d \<in> set (index (dropna market_pct_change)))
                   (index (rows (dropna_frame stock_pct_change)))"
    "sorted_wrt (<) (index mr)"
    using update_data_aligned[OF assms] by blast
  have "set (index mr) = set (index (rows (dropna_frame stock_pct_change)))
                 \<inter> set (index (dropna market_pct_change))"
    unfolding h(3) by auto
  with h show ?thesis by blast
qed

theorem update_data_alignment_witness:
  "sorted_wrt (<) (index (rows \<lparr>columns = [''A''],
       rows = [(1, [None]), (2, [Some 1]), (3, [Some 2]), (5, [Some 3])]\<rparr>))
   \<and> distinct (index [(1, None), (2, Some 1), (4, Some 5), (5, Some (2::real))])
   \<and> update_data \<lparr>columns = [''A''],
          rows = [(1, [None]), (2, [Some 1]), (3, [Some 2]), (5, [Some 3])]\<rparr>
        [(1, None), (2, Some 1), (4, Some 5), (5, Some 2)]
      = Inr (\<lparr>columns = [''A''], rows = [(2, [1]), (5, [3])]\<rparr>, [(2, 1), (5, 2)])"
  using update_data_alignment
    [of "\<lparr>columns = [''A''],
          rows = [(1, [None]), (2, [Some 1]), (3, [Some 2]), (5, [Some 3])]\<rparr>"
        "[(1, None), (2, Some 1), (4, Some 5), (5, Some 2)]"]
  by (simp add: update_data_def dropna_frame_def reindex_def index_def)

section \<open>Properties of calculate_portfolio_statistics\<close>

lemma sum_dict_set_None:
  "map_of d k = None \<Longrightarrow> sum_list (map snd (dict_set d k v)) = sum_list (map snd d) + (v::real)"
  by (induction d) (auto split: if_splits)

lemma sum_dict_set_Some:
  "map_of d k = Some a \<Longrightarrow>
   sum_list (map snd (dict_set d k v)) = sum_list (map snd d) - a + (v::real)"
  by (induction d) (auto split: if_splits)

lemma sum_invested_amounts:
  "sum_list (map snd (invested_amounts d txs)) = sum_list (map snd d) + total_investment txs"
proof (induction txs arbitrary: d)
  case Nil
  then show ?case by (simp add: total_investment_def)
next
  case (Cons t txs)
  show ?case
  proof (cases "map_of d (tx_stock t)")
    case None
    then show ?thesis
      by (simp add: Cons.IH sum_dict_set_None total_investment_def)
  next
    case (Some a)
    then show ?thesis
      by (simp add: Cons.IH sum_dict_set_Some total_investment_def)
  qed
qed

lemma statistics_parts:
  assumes "calculate_portfolio_statistics txs sp mp = Inr (ret, risk, sharpe, beta)"
  shows "\<exists>pdr. ret = np_mean pdr \<and> risk = np_std pdr \<and> sharpe = np_div (np_mean pdr) (np_std pdr)"
  using assms
  by (auto simp: calculate_portfolio_statistics_def Let_def sharpe_of_def split: sum.splits)

lemma np_div_zero_risk:
  "np_div (Fin m) (Fin 0) = (if m = 0 then NaN else if 0 < m then PInf else NInf)"
  by simp

lemma portfolio_weights_zero_division:
  "portfolio_weights d t cols = Inl ZeroDivisionError \<Longrightarrow> t = 0"
  by (induction cols) (auto split: option.splits if_splits sum.splits)

lemma reindex_error: "reindex s labels = Inl e \<Longrightarrow> e = ValueError"
  by (auto simp: reindex_def split: if_splits)

lemma loc_error: "loc s labels = Inl e \<Longrightarrow> e = KeyError"
  by (induction labels arbitrary: e) (auto split: if_splits sum.splits)

lemma np_cov01_error: "np_cov01 xs ys = Inl e \<Longrightarrow> e = ValueError"
  by (auto simp: np_cov01_def split: if_splits)

lemma market_on_error: "market_on mp labels = Inl e \<Longrightarrow> e = ValueError"
  by (auto simp: market_on_def split: sum.splits dest: reindex_error)

lemma beta_of_error: "beta_of ps m = Inl e \<Longrightarrow> e \<noteq> ZeroDivisionError"
  by (auto simp: beta_of_def split: sum.splits dest: loc_error np_cov01_error)

lemma statistics_zero_division:
  assumes "calculate_portfolio_statistics txs sp mp = Inl ZeroDivisionError"
  shows "sum_list (map snd (invested_amounts [] txs)) = 0"
  using assms
  by (auto simp: calculate_portfolio_statistics_def Let_def split: sum.splits
      dest: portfolio_weights_zero_division market_on_error beta_of_error)

lemma zero_risk_sharpe:
  assumes "calculate_portfolio_statistics txs sp mp = Inr (ret, risk, sharpe, beta)"
    and "risk = Fin 0"
  shows "\<exists>m. ret = Fin m \<and> sharpe = (if m = 0 then NaN else if 0 < m then PInf else NInf)"
proof -
  obtain pdr where p: "ret = np_mean pdr" "risk = np_std pdr"
    "sharpe = np_div (np_mean pdr) (np_std pdr)"
    using statistics_parts[OF assms(1)] by blast
  have ne: "pdr \<noteq> []" using p(2) assms(2) by (auto simp: np_std_def)
  then have "ret = Fin (mean pdr)" using p(1) by (simp add: np_mean_def)
  moreover have "sharpe = np_div (Fin (mean pdr)) (Fin 0)"
    using p assms(2) ne by (simp add: np_mean_def)
  ultimately show ?thesis by (simp only: np_div_zero_risk) blast
qed


lemma dropna_doubled:
  "dropna (map (\<lambda>(d, v). (d, map_option ((*) 2) v)) mp)
   = map (\<lambda>(d, v). (d, 2 * v)) (dropna mp)"
  by (induction mp rule: dropna.induct) auto

lemma index_doubled: "index (map (\<lambda>(d, v). (d, 2 * v)) (m :: real series)) = index m"
  by (simp add: index_def case_prod_unfold comp_def)

lemma map_of_doubled:
  "map_of (map (\<lambda>(d, v). (d, 2 * v)) (m :: real series)) d = map_option ((*) 2) (map_of m d)"
  by (induction m) auto

lemma reindex_doubled:
  "reindex (map (\<lambda>(d, v). (d, 2 * v)) m) labels
   = map_sum id (map (\<lambda>(d, v). (d, map_option ((*) 2) v))) (reindex m labels)"
  unfolding reindex_def index_doubled map_of_doubled
  by (simp add: case_prod_unfold comp_def)

lemma market_on_doubled:
  "market_on (map (\<lambda>(d, v). (d, map_option ((*) 2) v)) mp) labels
   = map_sum id (map (\<lambda>(d, v). (d, 2 * v))) (market_on mp labels)"
  by (simp add: market_on_def dropna_doubled reindex_doubled split: sum.splits)

lemma mean_doubled: "mean (map ((*) 2) ys) = 2 * mean ys"
  by (simp add: mean_def sum_list_const_mult)

lemma codev_doubled_right:
  "codev xs (map ((*) 2) ys) = 2 * codev xs ys"
proof -
  have "(\<Sum>(x, y) \<leftarrow> zip xs (map ((*) 2) ys). (x - a) * (y - 2 * b))
        = 2 * (\<Sum>(x, y) \<leftarrow> zip xs ys. (x - a) * (y - b))" for a b :: real
    by (induction xs ys rule: list_induct2') (auto simp: algebra_simps)
  then show ?thesis by (simp add: codev_def mean_doubled)
qed

lemma codev_doubled_both:
  "codev (map ((*) 2) ys) (map ((*) 2) ys) = 4 * codev ys ys"
proof -
  have "(\<Sum>(x, y) \<leftarrow> zip (map ((*) 2) xs) (map ((*) 2) ys). (x - 2 * a) * (y - 2 * b))
        = 4 * (\<Sum>(x, y) \<leftarrow> zip xs ys. (x - a) * (y - b))" for a b :: real and xs
    by (induction xs ys rule: list_induct2') (auto simp: algebra_simps)
  then show ?thesis by (simp add: codev_def mean_doubled)
qed

lemma beta_of_doubled:
  assumes "beta_of ps m = Inr (Fin b)"
  shows "beta_of ps (map (\<lambda>(d, v). (d, 2 * v)) m) = Inr (Fin (b / 2))"
proof -
  let ?m2 = "map (\<lambda>(d, v). (d, 2 * v)) m"
  have vals: "map snd ?m2 = map ((*) 2) (map snd m)"
    by (simp add: case_prod_unfold comp_def)
  obtain p c where p: "loc ps (index m) = Inr p" "np_cov01 (map snd p) (map snd m) = Inr c"
    "np_div c (np_var (map snd m)) = Fin b"
    using assms by (auto simp: beta_of_def split: sum.splits)
  have ne: "m \<noteq> []"
    using p(3) by (cases c) (auto simp: np_var_def)
  define v where "v = codev (map snd m) (map snd m) / real (length m)"
  have var: "np_var (map snd m) = Fin v" using ne by (simp add: np_var_def v_def)
  from p(3) obtain c' where cv: "c = Fin c'" "np_var (map snd m) = Fin v" "v \<noteq> 0" "b = c' / v"
    unfolding var by (cases c) (auto split: if_splits)
  have cov2: "np_cov01 (map snd p) (map snd ?m2) = Inr (Fin (2 * c'))"
    using p(2) cv(1) unfolding vals
    by (auto simp: np_cov01_def codev_doubled_right simp del: map_map split: if_splits)
  have var2: "np_var (map snd ?m2) = Fin (4 * v)"
    using cv(2) ne unfolding vals
    by (auto simp: np_var_def codev_doubled_both simp del: map_map)
  show ?thesis
    using p(1) cov2 var2 cv(3,4) by (simp add: beta_of_def index_doubled)
qed

lemma statistics_doubled_benchmark:
  assumes "calculate_portfolio_statistics txs sp mp = Inr (ret, risk, sharpe, Fin b)"
  shows "calculate_portfolio_statistics txs sp (map (\<lambda>(d, v). (d, map_option ((*) 2) v)) mp)
         = Inr (ret, risk, sharpe, Fin (b / 2))"
  using assms
  by (auto simp: calculate_portfolio_statistics_def Let_def market_on_doubled
      split: sum.splits dest: beta_of_doubled)

text \<open>
  C2, as the code has it. The Sharpe ratio is a numpy division, which does not raise:
  when the computation returns with a risk of 0, the Sharpe ratio is NaN for a mean of
  0, \<open>+Inf\<close> for a positive and \<open>-Inf\<close> for a negative mean. The only
  ZeroDivisionError of the computation is the division of the invested amounts by a
  zero total, so with a nonzero total invested none is raised.
\<close>

theorem sharpe_zero_risk:
  assumes "total_investment transactions \<noteq> 0"
  shows "calculate_portfolio_statistics transactions stock_pct_change market_pct_change
           \<noteq> Inl ZeroDivisionError
         \<and> (\<forall>ret sharpe beta.
              calculate_portfolio_statistics transactions stock_pct_change market_pct_change
                = Inr (ret, Fin 0, sharpe, beta) \<longrightarrow>
              (\<exists>m. ret = Fin m
                 \<and> sharpe = (if m = 0 then NaN else if 0 < m then PInf else NInf)))"
proof (intro conjI allI impI)
  show "calculate_portfolio_statistics transactions stock_pct_change market_pct_change
           \<noteq> Inl ZeroDivisionError"
    using assms statistics_zero_division[of transactions stock_pct_change market_pct_change]
    by (auto simp: sum_invested_amounts)
next
  fix ret sharpe beta
  assume "calculate_portfolio_statistics transactions stock_pct_change market_pct_change
                = Inr (ret, Fin 0, sharpe, beta)"
  then show "\<exists>m. ret = Fin m \<and> sharpe = (if m = 0 then NaN else if 0 < m then PInf else NInf)"
    by (rule zero_risk_sharpe) simp
qed

theorem sharpe_zero_risk_witness:
  "total_investment [(''A'', 1, 1, 100)] \<noteq> 0
   \<and> calculate_portfolio_statistics [(''A'', 1, 1, 100)]
        \<lparr>columns = [''A''], rows = [(1, [Some 0]), (2, [Some 0])]\<rparr>
        [(1, Some 1), (2, Some 2)] = Inr (Fin 0, Fin 0, NaN, Fin 0)
   \<and> calculate_portfolio_statistics [(''A'', 1, 1, 100)]
        \<lparr>columns = [''A''], rows = [(1, [Some 0]), (2, [Some 0])]\<rparr>
        [(1, Some 1), (2, Some 2)] \<noteq> Inl ZeroDivisionError"
  using sharpe_zero_risk
    [of "[(''A'', 1, 1, 100)]" "\<lparr>columns = [''A''], rows = [(1, [Some 0]), (2, [Some 0])]\<rparr>"
        "[(1, Some 1), (2, Some 2)]"]
  by (simp add: total_investment_def calculate_portfolio_statistics_def dropna_frame_def tx_stock_def tx_amount_def
      dot_def np_mean_def np_std_def sharpe_of_def mean_def codev_def market_on_def reindex_def
      index_def beta_of_def np_cov01_def np_var_def)

text \<open>
  The claim that a constant portfolio return series makes the Sharpe computation fail
  with a division error is false: a constant return of 1 gives the risk 0 and the
  Sharpe ratio \<open>+Inf\<close>, returned without an error.
\<close>

theorem sharpe_constant_series_counterexample:
  "calculate_portfolio_statistics [(''A'', 1, 1, 100)]
     \<lparr>columns = [''A''], rows = [(1, [Some 1]), (2, [Some 1])]\<rparr>
     [(1, Some 1), (2, Some 2)] = Inr (Fin 1, Fin 0, PInf, Fin 0)"
  by (simp add: calculate_portfolio_statistics_def dropna_frame_def tx_stock_def tx_amount_def
      dot_def np_mean_def np_std_def sharpe_of_def mean_def codev_def market_on_def reindex_def
      index_def beta_of_def np_cov01_def np_var_def)

text \<open>
  C3. Beta is the covariance over the variance under one normalisation; the code
  divides numpy's covariance (normalised by \<open>N - 1\<close>) by the variance that
  \<open>np.var\<close> takes of a Series (normalised by \<open>N\<close>). For a portfolio with the
  returns 1, 2, 3 against a benchmark with the same returns, the code returns 3/2,
  where the ratio under either single normalisation is 1.
\<close>

theorem beta_mixed_normalisation:
  "map_sum id (\<lambda>(ret, risk, sharpe, beta). beta)
     (calculate_portfolio_statistics [(''A'', 1, 1, 100)]
       \<lparr>columns = [''A''], rows = [(1, [Some 1]), (2, [Some 2]), (3, [Some 3])]\<rparr>
       [(1, Some 1), (2, Some 2), (3, Some 3)]) = Inr (Fin (3/2))
   \<and> beta_same_ddof 0 [1, 2, 3] [1, 2, 3] = 1
   \<and> beta_same_ddof 1 [1, 2, 3] [1, 2, 3] = 1"
  by (simp add: beta_same_ddof_def calculate_portfolio_statistics_def dropna_frame_def tx_stock_def tx_amount_def
      dot_def np_mean_def np_std_def sharpe_of_def mean_def codev_def market_on_def reindex_def
      index_def beta_of_def np_cov01_def np_var_def)

text \<open>
  C4, as the code has it. Doubling every benchmark return halves the beta that the
  computation returns (when that beta is finite) and leaves the other three statistics
  as they are. So for a benchmark that is 2 times the instruments' daily return, beta is
  one half of the beta computed for the benchmark equal to the instruments' daily
  return.
\<close>

theorem beta_doubled_benchmark:
  assumes "calculate_portfolio_statistics transactions stock_pct_change market_pct_change
             = Inr (ret, risk, sharpe, Fin b)"
  shows "calculate_portfolio_statistics transactions stock_pct_change
           (map (\<lambda>(d, v). (d, map_option ((*) 2) v)) market_pct_change)
         = Inr (ret, risk, sharpe, Fin (b / 2))"
  using assms by (rule statistics_doubled_benchmark)

theorem beta_doubled_benchmark_witness:
  "calculate_portfolio_statistics [(''A'', 1, 1, 100)]
     \<lparr>columns = [''A''], rows = [(1, [Some 1]), (2, [Some 3])]\<rparr>
     [(1, Some 1), (2, Some 3)] = Inr (Fin 2, Fin 1, Fin 2, Fin 2)
   \<and> calculate_portfolio_statistics [(''A'', 1, 1, 100)]
     \<lparr>columns = [''A''], rows = [(1, [Some 1]), (2, [Some 3])]\<rparr>
     [(1, Some 2), (2, Some 6)] = Inr (Fin 2, Fin 1, Fin 2, Fin 1)"
proof -
  have h: "calculate_portfolio_statistics [(''A'', 1, 1, 100)]
     \<lparr>columns = [''A''], rows = [(1, [Some 1]), (2, [Some 3])]\<rparr>
     [(1, Some 1), (2, Some 3)] = Inr (Fin 2, Fin 1, Fin 2, Fin 2)"
    by (simp add: calculate_portfolio_statistics_def dropna_frame_def tx_stock_def tx_amount_def
      dot_def np_mean_def np_std_def sharpe_of_def mean_def codev_def market_on_def reindex_def
      index_def beta_of_def np_cov01_def np_var_def)
  show ?thesis using h beta_doubled_benchmark[OF h] by simp
qed

text \<open>
  The claim that a benchmark of 2 times the instrument's return gives the beta 2.0
  fails: for the returns 1, 2, 3 and the benchmark 2, 4, 6 the code returns 3/4.
\<close>

theorem beta_twice_benchmark_counterexample:
  "map_sum id (\<lambda>(ret, risk, sharpe, beta). beta)
     (calculate_portfolio_statistics [(''A'', 1, 1, 100)]
       \<lparr>columns = [''A''], rows = [(1, [Some 1]), (2, [Some 2]), (3, [Some 3])]\<rparr>
       [(1, Some 2), (2, Some 4), (3, Some 6)]) = Inr (Fin (3/4))
   \<and> 1 < \<bar>3/4 - (2::real)\<bar>"
  by (simp add: calculate_portfolio_statistics_def dropna_frame_def tx_stock_def tx_amount_def
      dot_def np_mean_def np_std_def sharpe_of_def mean_def codev_def market_on_def reindex_def
      index_def beta_of_def np_cov01_def np_var_def)

end
